theory Spec2Isabelle
  imports Main
begin

section \<open>JavaScript values used by the handlers\<close>

text \<open>
  A value of type \<open>string | null | undefined\<close> is a \<open>string option\<close>. In a boolean
  position JavaScript takes \<open>null\<close>, \<open>undefined\<close> and the empty string as false and
  every other string as true.
\<close>

definition truthy :: "string option \<Rightarrow> bool" where
  "truthy v = (case v of None \<Rightarrow> False | Some s \<Rightarrow> s \<noteq> [])"

section \<open>Credential authentication: \<open>authorize\<close> in \<open>server/auth.ts\<close>\<close>

text \<open>
  The row that \<open>prisma.user.findUnique\<close> selects (\<open>id\<close>, \<open>username\<close>, \<open>image\<close>,
  \<open>password\<close>), the credentials the provider passes in
  (\<open>Record<"email" | "password", string> | undefined\<close>) and the object that
  \<open>authorize\<close> returns.
\<close>

record user_row =
  row_id :: string
  row_username :: string
  row_image :: "string option"
  row_password :: "string option"

record credentials =
  email :: string
  password :: string

record public_user =
  pub_id :: string
  pub_username :: string
  pub_image :: "string option"

text \<open>\<open>throw new Error(message)\<close>.\<close>

datatype error = Error string

text \<open>
  The calls that leave \<open>authorize\<close>: the lookup by the email of the \<open>where\<close> clause
  (\<open>credentials?.email\<close>, so possibly undefined) and \<open>bcrypt.compare(password, hash)\<close>.
  Both collaborators are parameters of the model; the log records each call.
\<close>

datatype auth_call =
    FindUnique "string option"
  | BcryptCompare string string

type_synonym user_lookup = "string option \<Rightarrow> user_row option"

type_synonym hash_compare = "string \<Rightarrow> string \<Rightarrow> bool"

text \<open>
  \<open>user.password && credentials?.password && (await bcrypt.compare(credentials.password,
  user.password))\<close>: the comparison is evaluated only when both operands before it are
  truthy. The result is the truth value of the conjunction and the calls it made.
\<close>

definition passwordMatches ::
  "hash_compare \<Rightarrow> user_row \<Rightarrow> credentials option \<Rightarrow> bool \<times> auth_call list" where
  "passwordMatches compare user creds =
     (case row_password user of
        None \<Rightarrow> (False, [])
      | Some hash \<Rightarrow>
          if hash = [] then (False, [])
          else (case creds of
                  None \<Rightarrow> (False, [])
                | Some c \<Rightarrow>
                    if password c = [] then (False, [])
                    else (compare (password c) hash, [BcryptCompare (password c) hash])))"

definition authorize ::
  "user_lookup \<Rightarrow> hash_compare \<Rightarrow> credentials option
     \<Rightarrow> (error + public_user) \<times> auth_call list" where
  "authorize findUnique compare creds =
     (let where_email = map_option email creds in
      case findUnique where_email of
        None \<Rightarrow> (Inl (Error ''No user found''), [FindUnique where_email])
      | Some user \<Rightarrow>
          (let (matches, calls) = passwordMatches compare user creds in
           if \<not> matches
           then (Inl (Error ''Password does not match''), FindUnique where_email # calls)
           else (Inr \<lparr>pub_id = row_id user, pub_username = row_username user,
                      pub_image = row_image user\<rparr>,
                 FindUnique where_email # calls)))"

text \<open>Whether a call of the log is a hash comparison.\<close>

fun is_compare :: "auth_call \<Rightarrow> bool" where
  "is_compare (BcryptCompare p h) = True"
| "is_compare (FindUnique e) = False"

section \<open>Client state shared by the page components\<close>

text \<open>
  The components act on the outside world only through calls: a typed-RPC mutation, the
  PUT of the file to the presigned URL, \<open>update()\<close> of the session, \<open>push\<close> of the
  router, a toast, and the query-cache operations \<open>cancel\<close> and \<open>invalidate\<close>. The
  model records each call, in the order in which the code issues it.
\<close>

type_synonym file_bytes = "nat list"

datatype effect =
    ToastError string
  | SetImageRequest
  | AxiosPut string "file_bytes option"
  | EditProfileRequest "string option" "string option"
  | SessionUpdate
  | RouterPush string
  | CancelQuery string
  | InvalidateQuery string
  | LikeProfileRequest string

record ui =
  effects :: "effect list"

text \<open>
  Modelled from the spec: \<open>handleErrors\<close> of \<open>utils/handle-errors.util\<close> is not among
  the sources. The spec has every mutation's error handler "convert it to a user-visible
  toast plus a local state reset (e.g., clearing a loading flag)": the message is shown
  and the callback \<open>fn\<close> is run.
\<close>

definition handleErrors ::
  "string \<Rightarrow> ('a ui_scheme \<Rightarrow> 'a ui_scheme) \<Rightarrow> 'a ui_scheme \<Rightarrow> 'a ui_scheme" where
  "handleErrors message fn st = fn (st\<lparr>effects := effects st @ [ToastError message]\<rparr>)"

section \<open>The settings page: \<open>pages/settings/profile.tsx\<close>\<close>

record page = ui +
  loading :: bool

record EditProfileInput =
  username :: "string option"
  tagline :: "string option"

record session_user =
  su_id :: string
  su_username :: string
  su_image :: "string option"

record session =
  sess_user :: session_user

text \<open>
  \<open>username && username.length\<close>: false for an undefined or empty string, otherwise
  the length, which is true when it is not zero.
\<close>

definition has_length :: "string option \<Rightarrow> bool" where
  "has_length v = (case v of None \<Rightarrow> False | Some s \<Rightarrow> s \<noteq> [] \<and> length s \<noteq> 0)"

text \<open>
  The template literal \<open>`/${session?.user.username}`\<close>: an undefined session prints as
  \<open>undefined\<close>.
\<close>

definition session_profile_path :: "session option \<Rightarrow> string" where
  "session_profile_path s =
     ''/'' @ (case s of None \<Rightarrow> ''undefined'' | Some v \<Rightarrow> su_username (sess_user v))"

text \<open>
  \<open>handleFormSubmit\<close>: \<open>setImage()\<close> and \<open>mutate(...)\<close> start their mutations and
  return at once; neither is awaited.
\<close>

definition handleFormSubmit :: "file_bytes option \<Rightarrow> EditProfileInput \<Rightarrow> page \<Rightarrow> page" where
  "handleFormSubmit file input st =
     (let st1 = st\<lparr>loading := True\<rparr>;
          st2 = (if file \<noteq> None then st1\<lparr>effects := effects st1 @ [SetImageRequest]\<rparr>
                 else st1)
      in if has_length (username input) \<or> has_length (tagline input)
         then st2\<lparr>effects := effects st2 @
                      [EditProfileRequest (username input) (tagline input)]\<rparr>
         else st2\<lparr>loading := False\<rparr>)"

text \<open>The callbacks of \<open>api.user.editProfile.useMutation\<close>; \<open>data.username\<close> is a string.\<close>

definition editProfile_onSuccess :: "string \<Rightarrow> page \<Rightarrow> page" where
  "editProfile_onSuccess data_username st =
     st\<lparr>effects := effects st @ [SessionUpdate, RouterPush (''/'' @ data_username)]\<rparr>"

definition editProfile_onError :: "page \<Rightarrow> page" where
  "editProfile_onError st =
     handleErrors ''Failed to edit profile!'' (\<lambda>s. s\<lparr>loading := False\<rparr>) st"

text \<open>
  The callbacks of \<open>api.user.setImage.useMutation\<close>. \<open>onSuccess\<close> awaits the PUT of the
  file to the presigned URL \<open>result\<close>; \<open>put_ok\<close> says whether that request succeeds.
  When it does not, the callback rejects at the \<open>await\<close> (first component \<open>False\<close>) and
  nothing after it runs. \<open>vals\<close> is what \<open>getValues()\<close> returns when the callback runs.
\<close>

definition setImage_onSuccess ::
  "session option \<Rightarrow> EditProfileInput \<Rightarrow> file_bytes option \<Rightarrow> string \<Rightarrow> bool \<Rightarrow> page
     \<Rightarrow> bool \<times> page" where
  "setImage_onSuccess sess vals file result put_ok st =
     (let st1 = st\<lparr>effects := effects st @ [AxiosPut result file]\<rparr> in
      if \<not> put_ok then (False, st1)
      else if \<not> truthy (username vals) \<and> \<not> truthy (username vals)
      then (True, st1\<lparr>effects := effects st1 @
                         [SessionUpdate, RouterPush (session_profile_path sess)]\<rparr>)
      else (True, st1))"

definition setImage_onError :: "page \<Rightarrow> page" where
  "setImage_onError st =
     handleErrors ''Failed to set image!'' (\<lambda>s. s\<lparr>loading := False\<rparr>) st"

text \<open>
  The answers that can come back for the two mutations \<open>handleFormSubmit\<close> starts. The
  mutation library runs \<open>onSuccess\<close> when the server call resolves and \<open>onError\<close> when
  it rejects or when \<open>onSuccess\<close> itself rejects.
\<close>

datatype response =
    SetImageResolved string bool
  | SetImageRejected
  | EditProfileResolved string
  | EditProfileRejected

fun deliver ::
  "session option \<Rightarrow> EditProfileInput \<Rightarrow> file_bytes option \<Rightarrow> response \<Rightarrow> page \<Rightarrow> page" where
  "deliver sess vals file (SetImageResolved result put_ok) st =
     (case setImage_onSuccess sess vals file result put_ok st of
        (True, st') \<Rightarrow> st'
      | (False, st') \<Rightarrow> setImage_onError st')"
| "deliver sess vals file SetImageRejected st = setImage_onError st"
| "deliver sess vals file (EditProfileResolved data_username) st =
     editProfile_onSuccess data_username st"
| "deliver sess vals file EditProfileRejected st = editProfile_onError st"

text \<open>
  One chain of the spec's \<open>submitProfile\<close>: the submit handler runs to its end, then the
  answers arrive in the order \<open>responses\<close>.
\<close>

definition submitProfile ::
  "session option \<Rightarrow> EditProfileInput \<Rightarrow> file_bytes option \<Rightarrow> EditProfileInput
     \<Rightarrow> response list \<Rightarrow> page \<Rightarrow> page" where
  "submitProfile sess vals file input responses st =
     foldl (\<lambda>s r. deliver sess vals file r s) (handleFormSubmit file input st) responses"

text \<open>Whether an effect is a call to the server or to the object store.\<close>

fun is_server_call :: "effect \<Rightarrow> bool" where
  "is_server_call SetImageRequest = True"
| "is_server_call (AxiosPut url f) = True"
| "is_server_call (EditProfileRequest u t) = True"
| "is_server_call (LikeProfileRequest i) = True"
| "is_server_call e = False"

section \<open>The like button: \<open>components/ProfileCard.tsx\<close>\<close>

text \<open>
  The cached result of \<open>getProfile\<close>, keyed by \<open>{ username }\<close>. Of a profile the
  handlers read and write \<open>authUserHasLiked\<close> and \<open>likeCount\<close>; the object spread
  \<open>...previousProfileData\<close> carries the other fields along, which are the extension of
  the record. \<open>likeCount\<close> is a count of likes held in a JavaScript number: an integer,
  on which the code's \<open>+ 1\<close> and \<open>+ -1\<close> are the exact sum as long as the count is
  below \<open>2 ^ 53\<close> in absolute value. The properties of the arithmetic are stated for
  such counts only.
\<close>

record profile =
  authUserHasLiked :: bool
  likeCount :: int

record 'p card = ui +
  cache :: "string \<rightharpoonup> 'p"

text \<open>
  \<open>onMutate\<close>: cancel outgoing fetches, read the cached profile, return without writing
  when there is none, otherwise write the flipped flag and the adjusted count and return
  what was read (the mutation's context).
\<close>

definition onMutate ::
  "string \<Rightarrow> ('a profile_scheme) card \<Rightarrow> 'a profile_scheme option \<times> ('a profile_scheme) card" where
  "onMutate name st =
     (let st1 = st\<lparr>effects := effects st @ [CancelQuery name]\<rparr> in
      case cache st1 name of
        None \<Rightarrow> (None, st1)
      | Some previousProfileData \<Rightarrow>
          (Some previousProfileData,
           st1\<lparr>cache := (cache st1)(name \<mapsto> previousProfileData
                  \<lparr>authUserHasLiked := \<not> authUserHasLiked previousProfileData,
                   likeCount := likeCount previousProfileData +
                     (if authUserHasLiked previousProfileData then - 1 else 1)\<rparr>)\<rparr>))"

definition onSettled :: "string \<Rightarrow> ('a profile_scheme) card \<Rightarrow> ('a profile_scheme) card" where
  "onSettled name st = st\<lparr>effects := effects st @ [InvalidateQuery name]\<rparr>"

text \<open>
  \<open>onError\<close> takes neither the error's context nor the cache's content: it writes the
  component's prop \<open>profileData\<close> with its flag negated, when the prop is defined.
\<close>

definition onError ::
  "string \<Rightarrow> 'a profile_scheme option \<Rightarrow> ('a profile_scheme) card \<Rightarrow> ('a profile_scheme) card" where
  "onError name profileData st =
     handleErrors ''Could not like!''
       (\<lambda>s. case profileData of
               None \<Rightarrow> s
             | Some pd \<Rightarrow>
                 s\<lparr>cache := (cache s)(name \<mapsto>
                      pd\<lparr>authUserHasLiked := \<not> authUserHasLiked pd\<rparr>)\<rparr>)
       st"

text \<open>
  One run of \<open>mutate({ id })\<close>. The mutation library awaits \<open>onMutate\<close> and then
  sends the request: \<open>likeProfile_sent\<close> is the state at that moment, before the server
  has answered. The answer then runs \<open>onError\<close> when the server rejects, and
  \<open>onSettled\<close> in either case. \<open>profileData\<close> is the prop that the \<open>onError\<close>
  closure sees when it runs.
\<close>

definition likeProfile_sent ::
  "string \<Rightarrow> string \<Rightarrow> ('a profile_scheme) card \<Rightarrow> ('a profile_scheme) card" where
  "likeProfile_sent name target st =
     (let (context, st1) = onMutate name st
      in st1\<lparr>effects := effects st1 @ [LikeProfileRequest target]\<rparr>)"

definition likeProfile ::
  "string \<Rightarrow> 'a profile_scheme option \<Rightarrow> string \<Rightarrow> bool \<Rightarrow> ('a profile_scheme) card
     \<Rightarrow> ('a profile_scheme) card" where
  "likeProfile name profileData target server_ok st =
     (let st2 = likeProfile_sent name target st;
          st3 = (if server_ok then st2 else onError name profileData st2)
      in onSettled name st3)"

text \<open>The state that \<open>onMutate\<close> writes for a cached profile.\<close>

definition optimistic :: "'a profile_scheme \<Rightarrow> 'a profile_scheme" where
  "optimistic p =
     p\<lparr>authUserHasLiked := \<not> authUserHasLiked p,
       likeCount := likeCount p + (if authUserHasLiked p then - 1 else 1)\<rparr>"

section \<open>Concrete inputs\<close>

text \<open>
  A user table with one row, a comparison that accepts a password against the hash
  \<open>hashed-\<close> followed by that password, an idle settings page and a profile card whose
  cache holds one profile that is not liked and has five likes.
\<close>

definition alice :: user_row where
  "alice = \<lparr>row_id = ''u1'', row_username = ''alice'', row_image = None,
            row_password = Some ''hashed-correct''\<rparr>"

definition one_user :: user_lookup where
  "one_user e = (if e = Some ''a@x.com'' then Some alice else None)"

definition toy_compare :: hash_compare where
  "toy_compare p h = (h = ''hashed-'' @ p)"

definition page0 :: page where
  "page0 = \<lparr>effects = [], loading = False\<rparr>"

definition card0 :: "profile card" where
  "card0 = \<lparr>effects = [],
            cache = [''bob'' \<mapsto> \<lparr>authUserHasLiked = False, likeCount = 5\<rparr>]\<rparr>"

text \<open>The same card after the profile has been liked, and two sessions.\<close>

definition card1 :: "profile card" where
  "card1 = \<lparr>effects = [],
            cache = [''bob'' \<mapsto> \<lparr>authUserHasLiked = True, likeCount = 6\<rparr>]\<rparr>"

definition alice_session :: session where
  "alice_session = \<lparr>sess_user = \<lparr>su_id = ''u1'', su_username = ''alice'', su_image = None\<rparr>\<rparr>"

definition dave_session :: session where
  "dave_session = \<lparr>sess_user = \<lparr>su_id = ''u4'', su_username = ''dave'', su_image = None\<rparr>\<rparr>"

section \<open>Properties of \<open>authorize\<close>\<close>

lemma passwordMatches_true_iff:
  "fst (passwordMatches compare user creds) =
     (truthy (row_password user) \<and> truthy (map_option password creds) \<and>
      (\<exists>c h. creds = Some c \<and> row_password user = Some h \<and> compare (password c) h))"
  by (auto simp: passwordMatches_def truthy_def split: option.splits)

lemma authorize_found:
  assumes "findUnique (map_option email creds) = Some user"
  shows "fst (authorize findUnique compare creds) =
           (if fst (passwordMatches compare user creds)
            then Inr \<lparr>pub_id = row_id user, pub_username = row_username user,
                       pub_image = row_image user\<rparr>
            else Inl (Error ''Password does not match''))"
  using assms by (cases "passwordMatches compare user creds") (simp add: authorize_def)

text \<open>
  C4. When the lookup by the supplied email finds no record, \<open>authorize\<close> throws
  \<open>Error("No user found")\<close> (the spec's "no such user" error), and the only call it
  has made is the lookup: the hash comparison is not invoked.
\<close>

theorem authorize_no_user:
  assumes "findUnique (map_option email creds) = None"
  shows "fst (authorize findUnique compare creds) = Inl (Error ''No user found'')
       \<and> snd (authorize findUnique compare creds) = [FindUnique (map_option email creds)]
       \<and> \<not> list_ex is_compare (snd (authorize findUnique compare creds))"
  using assms by (simp add: authorize_def)

theorem authorize_no_user_witness:
  "one_user (map_option email (Some \<lparr>email = ''b@x.com'', password = ''correct''\<rparr>)) = None
   \<and> fst (authorize one_user toy_compare (Some \<lparr>email = ''b@x.com'', password = ''correct''\<rparr>))
       = Inl (Error ''No user found'')
   \<and> \<not> list_ex is_compare
        (snd (authorize one_user toy_compare
               (Some \<lparr>email = ''b@x.com'', password = ''correct''\<rparr>)))"
  using authorize_no_user
    [where findUnique = one_user and compare = toy_compare
       and creds = "Some \<lparr>email = ''b@x.com'', password = ''correct''\<rparr>"]
  by (simp add: one_user_def)

text \<open>
  C5. When the lookup finds a record, \<open>authorize\<close> returns a user exactly when the stored
  hash is present, the supplied password is present and \<open>bcrypt.compare\<close> answers true;
  in every other case it throws \<open>Error("Password does not match")\<close> (the spec's
  "credential mismatch" error). Present is what the code tests: the value is truthy,
  that is, neither null, undefined nor the empty string.
\<close>

theorem authorize_matching_user:
  assumes "findUnique (map_option email creds) = Some user"
  shows "(\<not> isl (fst (authorize findUnique compare creds))) =
           (truthy (row_password user) \<and> truthy (map_option password creds) \<and>
            (\<exists>c h. creds = Some c \<and> row_password user = Some h \<and> compare (password c) h))
       \<and> (isl (fst (authorize findUnique compare creds)) \<longrightarrow>
            fst (authorize findUnique compare creds) = Inl (Error ''Password does not match''))"
proof -
  let ?ok = "fst (passwordMatches compare user creds)"
  have res: "fst (authorize findUnique compare creds) =
               (if ?ok then Inr \<lparr>pub_id = row_id user, pub_username = row_username user,
                                  pub_image = row_image user\<rparr>
                else Inl (Error ''Password does not match''))"
    using assms
    by (simp add: authorize_found [where findUnique = findUnique and creds = creds and user = user])
  have "(\<not> isl (fst (authorize findUnique compare creds))) = ?ok"
    by (simp add: res)
  moreover have "isl (fst (authorize findUnique compare creds)) \<longrightarrow>
      fst (authorize findUnique compare creds) = Inl (Error ''Password does not match'')"
    by (simp add: res)
  ultimately show ?thesis
    by (simp only: passwordMatches_true_iff)
qed

theorem authorize_matching_user_witness:
  "one_user (map_option email (Some \<lparr>email = ''a@x.com'', password = ''correct''\<rparr>)) = Some alice
   \<and> \<not> isl (fst (authorize one_user toy_compare
                  (Some \<lparr>email = ''a@x.com'', password = ''correct''\<rparr>)))
   \<and> fst (authorize one_user toy_compare (Some \<lparr>email = ''a@x.com'', password = ''wrong''\<rparr>))
       = Inl (Error ''Password does not match'')"
  using authorize_matching_user
    [where findUnique = one_user and compare = toy_compare and user = alice
       and creds = "Some \<lparr>email = ''a@x.com'', password = ''correct''\<rparr>"]
    authorize_matching_user
    [where findUnique = one_user and compare = toy_compare and user = alice
       and creds = "Some \<lparr>email = ''a@x.com'', password = ''wrong''\<rparr>"]
  by (simp add: one_user_def alice_def toy_compare_def truthy_def)

text \<open>
  C6. Whatever \<open>authorize\<close> returns is the record that the lookup found, cut down to its
  \<open>id\<close>, \<open>username\<close> and \<open>image\<close>. The returned object has these three fields and no
  other, so it has no field for the password hash.
\<close>

theorem authorize_returns_projection:
  assumes "fst (authorize findUnique compare creds) = Inr r"
  shows "\<exists>user. findUnique (map_option email creds) = Some user \<and>
           r = \<lparr>pub_id = row_id user, pub_username = row_username user,
                pub_image = row_image user\<rparr>"
proof (cases "findUnique (map_option email creds)")
  case None
  with assms show ?thesis by (simp add: authorize_def)
next
  case (Some user)
  have "fst (authorize findUnique compare creds) =
          (if fst (passwordMatches compare user creds)
           then Inr \<lparr>pub_id = row_id user, pub_username = row_username user,
                      pub_image = row_image user\<rparr>
           else Inl (Error ''Password does not match''))"
    using Some
    by (simp add: authorize_found [where findUnique = findUnique and creds = creds and user = user])
  with assms Some show ?thesis
    by (simp split: if_splits)
qed

theorem authorize_returns_projection_witness:
  "fst (authorize one_user toy_compare (Some \<lparr>email = ''a@x.com'', password = ''correct''\<rparr>))
     = Inr \<lparr>pub_id = ''u1'', pub_username = ''alice'', pub_image = None\<rparr>
   \<and> (\<exists>user. one_user (Some ''a@x.com'') = Some user \<and>
         \<lparr>pub_id = ''u1'', pub_username = ''alice'', pub_image = None\<rparr> =
         \<lparr>pub_id = row_id user, pub_username = row_username user, pub_image = row_image user\<rparr>)"
proof -
  have h: "fst (authorize one_user toy_compare
                 (Some \<lparr>email = ''a@x.com'', password = ''correct''\<rparr>))
             = Inr \<lparr>pub_id = ''u1'', pub_username = ''alice'', pub_image = None\<rparr>"
    by (simp add: authorize_def passwordMatches_def one_user_def alice_def toy_compare_def)
  from h authorize_returns_projection
    [where findUnique = one_user and compare = toy_compare
       and creds = "Some \<lparr>email = ''a@x.com'', password = ''correct''\<rparr>"
       and r = "\<lparr>pub_id = ''u1'', pub_username = ''alice'', pub_image = None\<rparr>"]
  show ?thesis by simp
qed

section \<open>Properties of the settings page\<close>

text \<open>
  C1, as the claim states it, fails. With a file staged and the username \<open>bob\<close>, the
  submit handler has issued the profile-update call by the time it returns, when no
  answer to the upload request can have arrived; and when that request is then
  rejected, the chain holds the profile-update call all the same.
\<close>

theorem submitProfile_upload_failure_counterexample:
  "effects (handleFormSubmit (Some [1, 2, 3]) \<lparr>username = Some ''bob'', tagline = None\<rparr> page0)
     = [SetImageRequest, EditProfileRequest (Some ''bob'') None]
   \<and> effects (submitProfile None \<lparr>username = Some ''bob'', tagline = None\<rparr> (Some [1, 2, 3])
                \<lparr>username = Some ''bob'', tagline = None\<rparr> [SetImageRejected] page0)
     = [SetImageRequest, EditProfileRequest (Some ''bob'') None,
        ToastError ''Failed to set image!'']"
  by (simp add: submitProfile_def handleFormSubmit_def has_length_def page0_def
      setImage_onError_def handleErrors_def)

text \<open>
  C1, amended. With a file staged, the submit handler issues the upload-target request
  first and does not wait for it: in the same run it issues the profile-update call
  exactly when the username or the tagline is not empty, whatever becomes of the upload.
  A failed upload, at the target request or at the transfer of the bytes, shows the
  error toast and clears the loading flag, and issues no call of its own.
\<close>

theorem handleFormSubmit_staged_file:
  "effects (handleFormSubmit (Some f) input st) =
     effects st @ [SetImageRequest] @
       (if has_length (username input) \<or> has_length (tagline input)
        then [EditProfileRequest (username input) (tagline input)] else [])
   \<and> deliver sess vals staged SetImageRejected st' =
       st'\<lparr>effects := effects st' @ [ToastError ''Failed to set image!''], loading := False\<rparr>
   \<and> deliver sess vals staged (SetImageResolved result False) st' =
       st'\<lparr>effects := effects st' @ [AxiosPut result staged, ToastError ''Failed to set image!''],
           loading := False\<rparr>"
  by (simp add: handleFormSubmit_def setImage_onError_def setImage_onSuccess_def handleErrors_def)

theorem handleFormSubmit_staged_file_witness:
  "effects (handleFormSubmit (Some [7]) \<lparr>username = Some [], tagline = Some ''hello''\<rparr> page0)
     = [SetImageRequest, EditProfileRequest (Some []) (Some ''hello'')]
   \<and> effects (handleFormSubmit (Some [7]) \<lparr>username = Some [], tagline = None\<rparr> page0)
     = [SetImageRequest]
   \<and> deliver None \<lparr>username = Some [], tagline = None\<rparr> (Some [7]) SetImageRejected
        (page0\<lparr>loading := True\<rparr>)
     = \<lparr>effects = [ToastError ''Failed to set image!''], loading = False\<rparr>"
  using handleFormSubmit_staged_file
    [where f = "[7]" and input = "\<lparr>username = Some [], tagline = Some ''hello''\<rparr>"
       and st = page0 and st' = "page0\<lparr>loading := True\<rparr>" and sess = None
       and vals = "\<lparr>username = Some [], tagline = None\<rparr>" and staged = "Some [7]"]
    handleFormSubmit_staged_file
    [where f = "[7]" and input = "\<lparr>username = Some [], tagline = None\<rparr>"
       and st = page0 and st' = "page0\<lparr>loading := True\<rparr>" and sess = None
       and vals = "\<lparr>username = Some [], tagline = None\<rparr>" and staged = "Some [7]"]
  by (simp add: page0_def has_length_def)

text \<open>
  C7. With an empty username, an empty tagline and no file staged, the submit handler
  issues no call at all and leaves the page as it found it with the loading flag
  cleared; the chain has no request that could be answered.
\<close>

theorem handleFormSubmit_noop:
  assumes "\<not> truthy (username input)" and "\<not> truthy (tagline input)"
  shows "handleFormSubmit None input st = st\<lparr>loading := False\<rparr>
       \<and> submitProfile sess vals None input [] st = st\<lparr>loading := False\<rparr>
       \<and> filter is_server_call (effects (handleFormSubmit None input st)) =
           filter is_server_call (effects st)"
  using assms
  by (auto simp: handleFormSubmit_def submitProfile_def truthy_def has_length_def
      split: option.splits)

theorem handleFormSubmit_noop_witness:
  "\<not> truthy (username \<lparr>username = Some [], tagline = Some []\<rparr>)
   \<and> \<not> truthy (tagline \<lparr>username = Some [], tagline = Some []\<rparr>)
   \<and> handleFormSubmit None \<lparr>username = Some [], tagline = Some []\<rparr> page0 = page0
   \<and> filter is_server_call
        (effects (handleFormSubmit None \<lparr>username = Some [], tagline = Some []\<rparr> page0)) = []"
  using handleFormSubmit_noop
    [where input = "\<lparr>username = Some [], tagline = Some []\<rparr>" and st = page0]
  by (simp add: truthy_def page0_def)

text \<open>
  C8. When the profile update succeeds, the handler calls the session's \<open>update()\<close> and
  then the router's \<open>push\<close> with the path of the username that the update returned, in
  this order, and does nothing else.
\<close>

theorem editProfile_onSuccess_order:
  "deliver sess vals staged (EditProfileResolved data_username) st =
     st\<lparr>effects := effects st @ [SessionUpdate, RouterPush (''/'' @ data_username)]\<rparr>"
  by (simp add: editProfile_onSuccess_def)

theorem editProfile_onSuccess_order_witness:
  "deliver None \<lparr>username = Some ''bob'', tagline = None\<rparr> None (EditProfileResolved ''bob'')
     (page0\<lparr>loading := True\<rparr>)
     = \<lparr>effects = [SessionUpdate, RouterPush ''/bob''], loading = True\<rparr>"
  using editProfile_onSuccess_order
    [where sess = None and vals = "\<lparr>username = Some ''bob'', tagline = None\<rparr>"
       and staged = None and data_username = "''bob''" and st = "page0\<lparr>loading := True\<rparr>"]
  by (simp add: page0_def)

text \<open>
  C10. After a successful upload, \<open>onSuccess\<close> of \<open>setImage\<close> refreshes the session and
  navigates exactly when the username of the form is undefined or the empty string. The
  path it navigates to is \<open>/\<close> followed by the username of the session as it is at that
  moment (\<open>undefined\<close> when there is no session), not by any value of the form. The
  tagline of the form has no part in the decision.
\<close>

theorem setImage_onSuccess_early_exit:
  "setImage_onSuccess sess vals staged result True st =
     (True,
      st\<lparr>effects := effects st @ [AxiosPut result staged] @
           (if username vals = None \<or> username vals = Some []
            then [SessionUpdate,
                  RouterPush (''/'' @ (case sess of None \<Rightarrow> ''undefined''
                                       | Some s \<Rightarrow> su_username (sess_user s)))]
            else [])\<rparr>)
   \<and> setImage_onSuccess sess (vals\<lparr>tagline := t\<rparr>) staged result True st =
       setImage_onSuccess sess vals staged result True st"
proof (cases "username vals")
  case None
  then show ?thesis
    by (simp add: setImage_onSuccess_def session_profile_path_def truthy_def)
next
  case (Some u)
  then show ?thesis
    by (cases "u = []") (simp_all add: setImage_onSuccess_def session_profile_path_def truthy_def)
qed

theorem setImage_onSuccess_early_exit_witness:
  "setImage_onSuccess (Some alice_session) \<lparr>username = Some [], tagline = Some ''hello''\<rparr>
     (Some [7]) ''https://put'' True page0
   = (True, \<lparr>effects = [AxiosPut ''https://put'' (Some [7]), SessionUpdate, RouterPush ''/alice''],
             loading = False\<rparr>)
   \<and> setImage_onSuccess (Some dave_session) \<lparr>username = None, tagline = None\<rparr>
     (Some [7]) ''https://put'' True page0
   = (True, \<lparr>effects = [AxiosPut ''https://put'' (Some [7]), SessionUpdate, RouterPush ''/dave''],
             loading = False\<rparr>)
   \<and> setImage_onSuccess None \<lparr>username = Some [], tagline = None\<rparr>
     (Some [7]) ''https://put'' True page0
   = (True, \<lparr>effects = [AxiosPut ''https://put'' (Some [7]), SessionUpdate,
                         RouterPush ''/undefined''],
             loading = False\<rparr>)
   \<and> setImage_onSuccess (Some alice_session) \<lparr>username = Some ''carol'', tagline = None\<rparr>
     (Some [7]) ''https://put'' True page0
   = (True, \<lparr>effects = [AxiosPut ''https://put'' (Some [7])], loading = False\<rparr>)
   \<and> setImage_onSuccess (Some alice_session) \<lparr>username = Some ''carol'', tagline = Some ''hello''\<rparr>
     (Some [7]) ''https://put'' True page0
   = (True, \<lparr>effects = [AxiosPut ''https://put'' (Some [7])], loading = False\<rparr>)"
  using setImage_onSuccess_early_exit
    [where sess = "Some alice_session"
       and vals = "\<lparr>username = Some [], tagline = Some ''hello''\<rparr>" and staged = "Some [7]"
       and result = "''https://put''" and st = page0]
    setImage_onSuccess_early_exit
    [where sess = "Some dave_session"
       and vals = "\<lparr>username = None, tagline = None\<rparr>" and staged = "Some [7]"
       and result = "''https://put''" and st = page0]
    setImage_onSuccess_early_exit
    [where sess = None
       and vals = "\<lparr>username = Some [], tagline = None\<rparr>" and staged = "Some [7]"
       and result = "''https://put''" and st = page0]
    setImage_onSuccess_early_exit
    [where sess = "Some alice_session"
       and vals = "\<lparr>username = Some ''carol'', tagline = None\<rparr>" and staged = "Some [7]"
       and result = "''https://put''" and st = page0 and t = "Some ''hello''"]
  by (simp add: page0_def alice_session_def dave_session_def)

section \<open>Properties of the like button\<close>

lemma onMutate_cached:
  assumes "cache st name = Some p"
  shows "onMutate name st =
           (Some p, st\<lparr>effects := effects st @ [CancelQuery name],
                       cache := (cache st)(name \<mapsto> optimistic p)\<rparr>)"
  using assms by (simp add: onMutate_def optimistic_def)

lemma onMutate_none:
  assumes "cache st name = None"
  shows "onMutate name st = (None, st\<lparr>effects := effects st @ [CancelQuery name]\<rparr>)"
  using assms by (simp add: onMutate_def)

lemma snapshot_before_write: "fst (onMutate name st) = cache st name"
  by (cases "cache st name") (simp_all add: onMutate_def)

lemma onError_effects:
  "effects (onError name profileData st) = effects st @ [ToastError ''Could not like!'']"
  by (cases profileData) (simp_all add: onError_def handleErrors_def)

lemma onError_cache:
  "cache (onError name profileData st) =
     (case profileData of
        None \<Rightarrow> cache st
      | Some pd \<Rightarrow> (cache st)(name \<mapsto> pd\<lparr>authUserHasLiked := \<not> authUserHasLiked pd\<rparr>))"
  by (cases profileData) (simp_all add: onError_def handleErrors_def)

lemma likeProfile_effects:
  "effects (likeProfile name profileData target server_ok st) =
     effects (snd (onMutate name st)) @ LikeProfileRequest target #
       (if server_ok then [] else [ToastError ''Could not like!'']) @ [InvalidateQuery name]"
  by (cases "onMutate name st")
     (simp add: likeProfile_def likeProfile_sent_def onSettled_def onError_effects)

lemma likeProfile_rejected_cache:
  assumes "cache st name = Some p"
  shows "cache (likeProfile name profileData target False st) name =
           (case profileData of
              None \<Rightarrow> Some (optimistic p)
            | Some pd \<Rightarrow> Some (pd\<lparr>authUserHasLiked := \<not> authUserHasLiked pd\<rparr>))"
  by (cases profileData)
     (simp_all add: likeProfile_def likeProfile_sent_def Let_def onMutate_cached [OF assms]
        onSettled_def onError_cache)

text \<open>
  After a rejected toggle the cache does not hold the snapshot again, whether the
  \<open>onError\<close> closure sees the prop of before the click, the prop rendered from the
  optimistic cache, or no prop.
\<close>

lemma likeProfile_rejected_never_restores:
  assumes "cache st name = Some p"
    and "profileData = None \<or> profileData = Some p \<or> profileData = Some (optimistic p)"
  shows "cache (likeProfile name profileData target False st) name \<noteq> Some p"
proof -
  have "optimistic p \<noteq> p"
    by (auto simp: optimistic_def dest: arg_cong [where f = authUserHasLiked])
  moreover have "p\<lparr>authUserHasLiked := \<not> authUserHasLiked p\<rparr> \<noteq> p"
    by (auto dest: arg_cong [where f = authUserHasLiked])
  moreover have "(optimistic p)\<lparr>authUserHasLiked := \<not> authUserHasLiked (optimistic p)\<rparr> \<noteq> p"
    by (auto simp: optimistic_def dest: arg_cong [where f = likeCount])
  ultimately show ?thesis
    using assms likeProfile_rejected_cache [OF assms(1), of profileData target]
    by auto
qed

text \<open>
  C2, at the spec's own example. The cache holds \<open>{liked: false, count: 5}\<close> and the
  server rejects the toggle. \<open>onMutate\<close> does return that state as the snapshot, read
  before it writes. \<open>onError\<close> does not use it: seeing the prop rendered from the
  optimistic cache it leaves \<open>{liked: false, count: 6}\<close>, seeing the prop of before the
  click it leaves \<open>{liked: true, count: 5}\<close>, and with no prop it leaves the optimistic
  \<open>{liked: true, count: 6}\<close>. None is the snapshot.
\<close>

theorem likeProfile_rollback_divergence:
  "fst (onMutate ''bob'' card0) = Some \<lparr>authUserHasLiked = False, likeCount = 5\<rparr>
   \<and> cache (likeProfile ''bob'' (Some \<lparr>authUserHasLiked = True, likeCount = 6\<rparr>) ''id1'' False card0)
        ''bob'' = Some \<lparr>authUserHasLiked = False, likeCount = 6\<rparr>
   \<and> cache (likeProfile ''bob'' (Some \<lparr>authUserHasLiked = False, likeCount = 5\<rparr>) ''id1'' False card0)
        ''bob'' = Some \<lparr>authUserHasLiked = True, likeCount = 5\<rparr>
   \<and> cache (likeProfile ''bob'' None ''id1'' False card0)
        ''bob'' = Some \<lparr>authUserHasLiked = True, likeCount = 6\<rparr>"
proof -
  have c: "cache card0 ''bob'' = Some \<lparr>authUserHasLiked = False, likeCount = 5\<rparr>"
    by (simp add: card0_def)
  show ?thesis
    by (simp add: likeProfile_rejected_cache [OF c] snapshot_before_write c optimistic_def)
qed

text \<open>
  C3. When the cache holds a profile whose count is below \<open>2 ^ 53\<close> in absolute value,
  \<open>onMutate\<close> replaces it by the same profile with the flag negated and the count one
  higher if it was not liked, one lower if it was, having issued nothing but the
  cancellation of outgoing fetches. In the run of the mutation this write comes first:
  at the moment the toggle request has been sent and nothing has been answered, the
  cache holds the new state already, and it still holds it when the server has
  accepted the toggle.
\<close>

theorem onMutate_optimistic:
  assumes "cache st name = Some p" and "\<bar>likeCount p\<bar> < 2 ^ 53"
  shows "cache (snd (onMutate name st)) name =
           Some (p\<lparr>authUserHasLiked := \<not> authUserHasLiked p,
                   likeCount := (if authUserHasLiked p then likeCount p - 1
                                 else likeCount p + 1)\<rparr>)
       \<and> effects (snd (onMutate name st)) = effects st @ [CancelQuery name]
       \<and> cache (likeProfile_sent name target st) name =
           Some (p\<lparr>authUserHasLiked := \<not> authUserHasLiked p,
                   likeCount := (if authUserHasLiked p then likeCount p - 1
                                 else likeCount p + 1)\<rparr>)
       \<and> effects (likeProfile_sent name target st) =
           effects st @ [CancelQuery name, LikeProfileRequest target]
       \<and> cache (likeProfile name profileData target True st) name =
           Some (p\<lparr>authUserHasLiked := \<not> authUserHasLiked p,
                   likeCount := (if authUserHasLiked p then likeCount p - 1
                                 else likeCount p + 1)\<rparr>)
       \<and> effects (likeProfile name profileData target True st) =
           effects st @ [CancelQuery name, LikeProfileRequest target, InvalidateQuery name]"
  by (simp add: likeProfile_def likeProfile_sent_def onSettled_def
      onMutate_cached [OF assms(1)] optimistic_def)

theorem onMutate_optimistic_witness:
  "cache card0 ''bob'' = Some \<lparr>authUserHasLiked = False, likeCount = 5\<rparr>
   \<and> \<bar>likeCount \<lparr>authUserHasLiked = False, likeCount = 5\<rparr>\<bar> < 2 ^ 53
   \<and> cache (snd (onMutate ''bob'' card0)) ''bob'' = Some \<lparr>authUserHasLiked = True, likeCount = 6\<rparr>
   \<and> likeProfile_sent ''bob'' ''id1'' card0 =
       \<lparr>effects = [CancelQuery ''bob'', LikeProfileRequest ''id1''],
        cache = [''bob'' \<mapsto> \<lparr>authUserHasLiked = True, likeCount = 6\<rparr>]\<rparr>
   \<and> cache (likeProfile ''bob'' None ''id1'' True card0) ''bob'' =
       Some \<lparr>authUserHasLiked = True, likeCount = 6\<rparr>
   \<and> cache card1 ''bob'' = Some \<lparr>authUserHasLiked = True, likeCount = 6\<rparr>
   \<and> cache (snd (onMutate ''bob'' card1)) ''bob'' = Some \<lparr>authUserHasLiked = False, likeCount = 5\<rparr>
   \<and> cache (likeProfile_sent ''bob'' ''id1'' card1) ''bob'' =
       Some \<lparr>authUserHasLiked = False, likeCount = 5\<rparr>"
  using onMutate_optimistic [where st = card0 and name = "''bob''" and target = "''id1''"
      and profileData = None and p = "\<lparr>authUserHasLiked = False, likeCount = 5\<rparr>"]
    onMutate_optimistic [where st = card1 and name = "''bob''" and target = "''id1''"
      and profileData = None and p = "\<lparr>authUserHasLiked = True, likeCount = 6\<rparr>"]
  by (simp add: card0_def card1_def likeProfile_sent_def onMutate_def)

text \<open>
  C9. When the cache holds no profile under the username, \<open>onMutate\<close> leaves the cache
  as it is and returns no snapshot, and the run of the mutation still sends the toggle
  request.
\<close>

theorem onMutate_no_entry:
  assumes "cache st name = None"
  shows "cache (snd (onMutate name st)) = cache st
       \<and> fst (onMutate name st) = None
       \<and> effects (likeProfile name profileData target server_ok st) =
           effects st @ CancelQuery name # LikeProfileRequest target #
             (if server_ok then [] else [ToastError ''Could not like!'']) @
             [InvalidateQuery name]"
  by (simp add: likeProfile_effects onMutate_none [OF assms])

theorem onMutate_no_entry_witness:
  "cache card0 ''carol'' = None
   \<and> cache (snd (onMutate ''carol'' card0)) = cache card0
   \<and> effects (likeProfile ''carol'' None ''id7'' True card0) =
       [CancelQuery ''carol'', LikeProfileRequest ''id7'', InvalidateQuery ''carol'']"
  using onMutate_no_entry [where st = card0 and name = "''carol''" and profileData = None
      and target = "''id7''" and server_ok = True]
  by (simp add: card0_def)

end
